theory Spec2Isabelle
  imports Main "HOL-Library.Word"
begin

section \<open>The expression graph of Marian (src/expression\_graph.h)\<close>

text \<open>
  The header defines the class \<open>ExpressionGraph\<close>: an ordered collection of
  computation nodes (the stack), a registry of named handles, and the lists of
  declared inputs and parameters.  The graph drives the forward and backward
  traversals by calling the virtual methods of every node; the node classes
  themselves (\<open>chainable.h\<close>, \<open>node_operators.h\<close>) are outside the header.
\<close>

subsection \<open>Pointers, handles and the graph object\<close>

text \<open>
  A \<open>ChainPtr\<close> is a shared pointer to a node on the free store; it is modelled by
  the address of the node.  An \<open>ExpressionGraphPtr\<close> is the address of a graph.
\<close>

type_synonym chain_ptr = nat
type_synonym graph_ptr = nat

text \<open>
  \<open>int batchSize\<close> is a 32-bit machine integer (read as signed by \<open>sint\<close>);
  the graph only passes it on.
\<close>

type_synonym int32 = "32 word"

text \<open>
  Class \<open>Expr\<close> (lines 36--58): the private members \<open>graph_\<close> and \<open>pimpl_\<close>.
  Two handles reference the same node when their \<open>pimpl\<close> are equal.
\<close>

record expr =
  graph_ptr :: graph_ptr
  pimpl :: chain_ptr

text \<open>
  Class \<open>ExpressionGraph\<close> (lines 205--210): the private members \<open>stack_\<close>,
  \<open>named_\<close>, \<open>params_\<close> and \<open>inputs_\<close>.  \<open>std::map<std::string, Expr>\<close> is a finite
  map with unique keys; \<open>self\<close> is the address of the object (\<open>this\<close>).
\<close>

record expression_graph =
  self :: graph_ptr
  stack :: "chain_ptr list"
  named :: "string \<rightharpoonup> expr"
  params :: "expr list"
  inputs :: "expr list"

text \<open>The constructor (line 62) allocates an empty stack; the other members are empty.\<close>

definition ExpressionGraph :: "graph_ptr \<Rightarrow> expression_graph" where
  "ExpressionGraph this =
     \<lparr>self = this, stack = [], named = Map.empty, params = [], inputs = []\<rparr>"

subsection \<open>Failures\<close>

text \<open>
  A call either returns, or throws a C++ exception carrying a message, or has no
  defined behaviour at all (\<open>back()\<close> on an empty \<open>std::vector\<close>).
\<close>

datatype failure = Thrown string | Undefined_behaviour

subsection \<open>Calls of the virtual methods of a node\<close>

text \<open>
  The graph reaches a node only through the virtual methods of
  \<open>Chainable<Tensor>\<close>, whose bodies are not part of the header.  A call is
  therefore a value, and the implementation of the nodes is a parameter
  \<open>exec\<close> that runs one call on the state of the nodes (their values and
  adjoints), where it may throw.  The node methods are taken not to change
  the stack they are reached from.
\<close>

datatype call =
    Allocate chain_ptr int32
  | Forward chain_ptr
  | Set_zero_adjoint chain_ptr
  | Init_dependent chain_ptr
  | Backward chain_ptr

type_synonym 's node_impl = "call \<Rightarrow> 's \<Rightarrow> failure + 's"

text \<open>The loop \<open>for(auto&& v : *stack_) v->m(...)\<close>: it ends at the first exception.\<close>

fun for_each :: "'s node_impl \<Rightarrow> (chain_ptr \<Rightarrow> call) \<Rightarrow> chain_ptr list \<Rightarrow> 's \<Rightarrow> failure + 's" where
  "for_each exec m [] s = Inr s"
| "for_each exec m (v # vs) s =
     (case exec (m v) s of Inl e \<Rightarrow> Inl e | Inr s' \<Rightarrow> for_each exec m vs s')"

text \<open>
  The loop \<open>for(It it = stack_->rbegin(); it != stack_->rend(); ++it) (*it)->m()\<close>
  visits the elements from the last to the first.
\<close>

definition for_each_reverse :: "'s node_impl \<Rightarrow> (chain_ptr \<Rightarrow> call) \<Rightarrow> chain_ptr list \<Rightarrow> 's \<Rightarrow> failure + 's" where
  "for_each_reverse exec m vs s = for_each exec m (rev vs) s"

text \<open>Sequencing of two statements, the second skipped when the first fails.\<close>

definition and_then :: "failure + 's \<Rightarrow> ('s \<Rightarrow> failure + 't) \<Rightarrow> failure + 't" where
  "and_then r k = (case r of Inl e \<Rightarrow> Inl e | Inr s \<Rightarrow> k s)"

subsection \<open>The traversals (lines 64--85)\<close>

definition forward :: "'s node_impl \<Rightarrow> int32 \<Rightarrow> expression_graph \<Rightarrow> 's \<Rightarrow> failure + 's" where
  "forward exec batchSize g s =
     and_then (for_each exec (\<lambda>v. Allocate v batchSize) (stack g) s)
       (\<lambda>s. for_each exec Forward (stack g) s)"

text \<open>\<open>stack_->back()\<close> has no defined behaviour when the stack is empty.\<close>

definition vector_back :: "chain_ptr list \<Rightarrow> failure + chain_ptr" where
  "vector_back vs = (if vs = [] then Inl Undefined_behaviour else Inr (last vs))"

definition backward :: "'s node_impl \<Rightarrow> expression_graph \<Rightarrow> 's \<Rightarrow> failure + 's" where
  "backward exec g s =
     and_then (for_each exec Set_zero_adjoint (stack g) s)
       (\<lambda>s. case vector_back (stack g) of
               Inl e \<Rightarrow> Inl e
             | Inr v \<Rightarrow> and_then (exec (Init_dependent v) s)
                         (\<lambda>s. for_each_reverse exec Backward (stack g) s))"

definition backprop :: "'s node_impl \<Rightarrow> int32 \<Rightarrow> expression_graph \<Rightarrow> 's \<Rightarrow> failure + 's" where
  "backprop exec batchSize g s =
     and_then (forward exec batchSize g s) (\<lambda>s. backward exec g s)"

subsection \<open>Nodes on the free store\<close>

text \<open>
  The arguments of the construction calls are a template parameter pack that is
  passed on to the constructor of the node.  \<open>Keyword_value k\<close> stands for the
  argument \<open>keywords::value=k\<close> with an integer literal \<open>k\<close>, \<open>Arg a\<close> for any
  other argument.
\<close>

datatype 'a arg = Keyword_value int | Arg 'a

datatype node_variant = InputNode | ParamNode | ConstantNode | OperatorNode

record 'a node =
  variant :: node_variant
  ctor_args :: "'a arg list"
  deps :: "chain_ptr list"

text \<open>The free store: the node at address \<open>p\<close> is \<open>h ! p\<close>, for \<open>p < length h\<close>.\<close>

type_synonym 'a heap = "'a node list"

text \<open>
  Modelled from the spec: the constructors of \<open>InputNode\<close>, \<open>ParamNode\<close> and
  \<open>ConstantNode\<close> (\<open>node_operators.h\<close>, not in the header).  \<open>new N(args...)\<close>
  constructs a new node of the requested variant at a fresh address; the new
  node is a leaf, it has no dependencies, and no existing node is touched.
\<close>

definition new_node :: "node_variant \<Rightarrow> 'a arg list \<Rightarrow> 'a heap \<Rightarrow> chain_ptr \<times> 'a heap" where
  "new_node k args h =
     (length h, h @ [\<lparr>variant = k, ctor_args = args, deps = []\<rparr>])"

text \<open>
  Modelled from the spec: the constructor \<open>Expr(ExpressionGraphPtr g,
  Chainable<Tensor>* chainable)\<close>, which the header (line 38) only declares.  It
  wraps the node in a handle of the graph and appends the node to the ordered
  collection of the graph.
\<close>

definition Expr :: "expression_graph \<Rightarrow> chain_ptr \<Rightarrow> expr \<times> expression_graph" where
  "Expr g chainable =
     (\<lparr>graph_ptr = self g, pimpl = chainable\<rparr>, g\<lparr>stack := stack g @ [chainable]\<rparr>)"

subsection \<open>Construction of nodes (lines 111--175)\<close>

definition input :: "'a arg list \<Rightarrow> 'a heap \<Rightarrow> expression_graph \<Rightarrow> expr \<times> 'a heap \<times> expression_graph" where
  "input args h g =
     (let (p, h') = new_node InputNode args h;
          (e, g') = Expr g p
      in (e, h', g'\<lparr>inputs := inputs g' @ [e]\<rparr>))"

definition param :: "'a arg list \<Rightarrow> 'a heap \<Rightarrow> expression_graph \<Rightarrow> expr \<times> 'a heap \<times> expression_graph" where
  "param args h g =
     (let (p, h') = new_node ParamNode args h;
          (e, g') = Expr g p
      in (e, h', g'\<lparr>params := params g' @ [e]\<rparr>))"

definition "constant" :: "'a arg list \<Rightarrow> 'a heap \<Rightarrow> expression_graph \<Rightarrow> expr \<times> 'a heap \<times> expression_graph" where
  "constant args h g =
     (let (p, h') = new_node ConstantNode args h;
          (e, g') = Expr g p
      in (e, h', g'))"

definition ones :: "'a arg list \<Rightarrow> 'a heap \<Rightarrow> expression_graph \<Rightarrow> expr \<times> 'a heap \<times> expression_graph" where
  "ones args h g =
     (let (p, h') = new_node ConstantNode (Keyword_value 1 # args) h;
          (e, g') = Expr g p
      in (e, h', g'))"

definition zeroes :: "'a arg list \<Rightarrow> 'a heap \<Rightarrow> expression_graph \<Rightarrow> expr \<times> 'a heap \<times> expression_graph" where
  "zeroes args h g =
     (let (p, h') = new_node ConstantNode (Keyword_value 0 # args) h;
          (e, g') = Expr g p
      in (e, h', g'))"

subsection \<open>The registry of named nodes (lines 183--195)\<close>

text \<open>
  \<open>std::map\<close>: \<open>find\<close> is the application of the map, \<open>count\<close> is 0 or 1, and
  \<open>emplace\<close> inserts only when the key is absent.
\<close>

definition count :: "('k \<rightharpoonup> 'v) \<Rightarrow> 'k \<Rightarrow> nat" where
  "count m k = (case m k of None \<Rightarrow> 0 | Some v \<Rightarrow> 1)"

definition emplace :: "'k \<Rightarrow> 'v \<Rightarrow> ('k \<rightharpoonup> 'v) \<Rightarrow> ('k \<rightharpoonup> 'v)" where
  "emplace k v m = (case m k of None \<Rightarrow> m(k \<mapsto> v) | Some old \<Rightarrow> m)"

text \<open>
  Modelled from the spec: the macro \<open>UTIL_THROW_IF2(condition, message)\<close>, defined
  in a header outside the repository's file.  It throws an exception with the
  message when the condition holds, and does nothing otherwise.
\<close>

definition UTIL_THROW_IF2 :: "bool \<Rightarrow> string \<Rightarrow> failure + unit" where
  "UTIL_THROW_IF2 condition message = (if condition then Inl (Thrown message) else Inr ())"

text \<open>The exception of a failed lookup: the NameNotFound condition of the spec.\<close>

definition NameNotFound :: "string \<Rightarrow> failure" where
  "NameNotFound name = Thrown (''No such named node in graph: '' @ name)"

text \<open>
  \<open>operator[]\<close>.  Reading \<open>it->second\<close> at the end iterator would have no defined
  behaviour; the check before it excludes that.
\<close>

definition operator_subscript :: "expression_graph \<Rightarrow> string \<Rightarrow> failure + expr" where
  "operator_subscript g name =
     (let it = named g name
      in case UTIL_THROW_IF2 (it = None) (''No such named node in graph: '' @ name) of
           Inl e \<Rightarrow> Inl e
         | Inr u \<Rightarrow> (case it of None \<Rightarrow> Inl Undefined_behaviour | Some e \<Rightarrow> Inr e))"

definition has_node :: "expression_graph \<Rightarrow> string \<Rightarrow> bool" where
  "has_node g name = (count (named g) name > 0)"

definition add_named_node :: "expr \<Rightarrow> string \<Rightarrow> expression_graph \<Rightarrow> expression_graph" where
  "add_named_node e name g = g\<lparr>named := emplace name e (named g)\<rparr>"

text \<open>A sequence of registrations, made from the first of the list to the last.\<close>

fun add_named_nodes :: "(expr \<times> string) list \<Rightarrow> expression_graph \<Rightarrow> expression_graph" where
  "add_named_nodes [] g = g"
| "add_named_nodes ((e, name) # rs) g = add_named_nodes rs (add_named_node e name g)"

text \<open>The first registration under a name in a sequence of registrations.\<close>

fun first_registration :: "(expr \<times> string) list \<Rightarrow> string \<Rightarrow> expr option" where
  "first_registration [] n = None"
| "first_registration ((e, name) # rs) n =
     (if name = n then Some e else first_registration rs n)"

subsection \<open>Rendering and accessors (lines 87--97 and 179--203)\<close>

text \<open>
  \<open>graphviz()\<close> asks every node for its fragment, from the last node to the
  first; \<open>node_graphviz\<close> is the virtual method of the nodes, a parameter.
  \<open>std::endl\<close> writes a line feed.
\<close>

definition endl :: string where
  "endl = [CHR 0x0A]"

definition graphviz :: "(chain_ptr \<Rightarrow> string) \<Rightarrow> expression_graph \<Rightarrow> string" where
  "graphviz node_graphviz g =
     ''digraph ExpressionGraph {'' @ endl @ ''rankdir=BT'' @ endl
       @ concat (map node_graphviz (rev (stack g))) @ ''}'' @ endl"

subsection \<open>The public methods as one transition function\<close>

text \<open>
  The whole state a caller of the graph can reach: the free store, the graph
  object and the state of the nodes.
\<close>

record ('a, 's) world =
  heap :: "'a heap"
  graph :: expression_graph
  node_state :: 's








subsection \<open>What a traversal is compared with\<close>

text \<open>
  \<open>perform exec cs s\<close> makes the calls \<open>cs\<close> one after the other, in the order of
  the list, and stops at the first one that throws.
\<close>

fun perform :: "'s node_impl \<Rightarrow> call list \<Rightarrow> 's \<Rightarrow> failure + 's" where
  "perform exec [] s = Inr s"
| "perform exec (c # cs) s =
     (case exec c s of Inl e \<Rightarrow> Inl e | Inr s' \<Rightarrow> perform exec cs s')"

text \<open>
  The nodes that only record the calls made on them: the state is the trace
  of all calls so far, and no call throws.
\<close>

definition record_call :: "(call list) node_impl" where
  "record_call c tr = Inr (tr @ [c])"

text \<open>
  The composition the specification describes for \<open>backprop\<close>: run
  \<open>forward(batchSize)\<close>, and after it has returned run \<open>backward()\<close> on the state it
  left; a failure of the forward pass is the failure of the whole.
\<close>

definition forward_then_backward :: "'s node_impl \<Rightarrow> int32 \<Rightarrow> expression_graph \<Rightarrow> 's \<Rightarrow> failure + 's" where
  "forward_then_backward exec b g s =
     (case forward exec b g s of Inl e \<Rightarrow> Inl e | Inr s' \<Rightarrow> backward exec g s')"

subsection \<open>A small graph to run the operations on\<close>

text \<open>
  A free store with a parameter node and an operator node that depends on it,
  and a graph whose stack holds both and whose parameter list holds the first.
\<close>

definition example_heap :: "unit heap" where
  "example_heap =
     [\<lparr>variant = ParamNode, ctor_args = [], deps = []\<rparr>,
      \<lparr>variant = OperatorNode, ctor_args = [], deps = [0]\<rparr>]"

definition example_graph :: expression_graph where
  "example_graph =
     \<lparr>self = 0, stack = [0, 1], named = Map.empty,
        params = [\<lparr>graph_ptr = 0, pimpl = 0\<rparr>], inputs = []\<rparr>"

section \<open>Properties of the traversals\<close>

lemma for_each_perform: "for_each exec m vs s = perform exec (map m vs) s"
  by (induction vs arbitrary: s) (simp_all split: sum.splits)

lemma perform_append:
  "perform exec (cs @ ds) s = and_then (perform exec cs s) (perform exec ds)"
  by (induction cs arbitrary: s) (simp_all add: and_then_def split: sum.splits)

lemma perform_record_call: "perform record_call cs tr = Inr (tr @ cs)"
  by (induction cs arbitrary: tr) (simp_all add: record_call_def)

lemma perform_Cons: "perform exec (c # cs) = (\<lambda>s. and_then (exec c s) (perform exec cs))"
  by (rule ext) (simp add: and_then_def)

lemma for_each_reverse_perform:
  "for_each_reverse exec m vs = perform exec (map m (rev vs))"
  by (rule ext) (simp add: for_each_reverse_def for_each_perform)

lemma backward_perform:
  "stack g \<noteq> [] \<Longrightarrow>
     backward exec g s =
       perform exec (map Set_zero_adjoint (stack g)
                     @ [Init_dependent (last (stack g))]
                     @ map Backward (rev (stack g))) s"
  by (simp add: backward_def for_each_reverse_perform vector_back_def for_each_perform
      perform_append perform_Cons)

lemma forward_perform:
  "forward exec b g s =
     perform exec (map (\<lambda>v. Allocate v b) (stack g) @ map Forward (stack g)) s"
  by (simp add: forward_def for_each_perform perform_append)

lemma backward_record_call:
  "backward record_call g tr =
     (case backward record_call g [] of Inl e \<Rightarrow> Inl e | Inr t \<Rightarrow> Inr (tr @ t))"
proof (cases "stack g = []")
  case True
  then show ?thesis
    by (simp add: backward_def vector_back_def and_then_def)
next
  case False
  then show ?thesis
    by (simp add: backward_perform perform_record_call)
qed

text \<open>
  C1.  On a graph with at least one node, \<open>backward()\<close> makes exactly these calls,
  in this order: \<open>set_zero_adjoint()\<close> on every node of the stack, then
  \<open>init_dependent()\<close> on the last node in construction order, then \<open>backward()\<close>
  on every node in reverse construction order, the last node first.  This holds
  for every implementation of the nodes (the calls stop at the first one that
  throws), and the trace recorded on a fresh log is that very sequence.
\<close>

theorem backward_call_sequence:
  "stack g \<noteq> [] \<Longrightarrow>
     backward exec g s =
       perform exec (map Set_zero_adjoint (stack g)
                     @ [Init_dependent (last (stack g))]
                     @ map Backward (rev (stack g))) s
   \<and> backward record_call g [] =
       Inr (map Set_zero_adjoint (stack g)
            @ [Init_dependent (last (stack g))]
            @ map Backward (rev (stack g)))
   \<and> hd (map Backward (rev (stack g))) = Backward (last (stack g))"
  by (simp add: backward_perform perform_record_call hd_map hd_rev)

theorem backward_call_sequence_witness:
  "stack \<lparr>self = 0, stack = [0, 1, 2], named = Map.empty, params = [], inputs = []\<rparr> \<noteq> []
   \<and> backward record_call \<lparr>self = 0, stack = [0, 1, 2], named = Map.empty, params = [], inputs = []\<rparr> []
       = Inr [Set_zero_adjoint 0, Set_zero_adjoint 1, Set_zero_adjoint 2,
              Init_dependent 2, Backward 2, Backward 1, Backward 0]"
proof -
  let ?g = "\<lparr>self = 0, stack = [0, 1, 2], named = Map.empty, params = [], inputs = []\<rparr>"
  have ne: "stack ?g \<noteq> []" by simp
  have "backward record_call ?g [] =
          Inr (map Set_zero_adjoint (stack ?g) @ [Init_dependent (last (stack ?g))]
               @ map Backward (rev (stack ?g)))"
    using backward_call_sequence [OF ne, of record_call "[]"] by (rule conjunct2 [THEN conjunct1])
  then show ?thesis by simp
qed

text \<open>
  C2.  \<open>forward(b)\<close> makes two complete passes over the stack: \<open>allocate(b)\<close> on
  every node in construction order, and after that \<open>forward()\<close> on every node in
  the same order.  In the recorded trace every \<open>allocate\<close> call stands before
  every \<open>forward\<close> call.
\<close>

theorem forward_two_passes:
  "forward exec b g s =
     perform exec (map (\<lambda>v. Allocate v b) (stack g) @ map Forward (stack g)) s
   \<and> forward record_call b g [] =
       Inr (map (\<lambda>v. Allocate v b) (stack g) @ map Forward (stack g))
   \<and> (\<forall>tr i j v w. forward record_call b g [] = Inr tr \<and> i < length tr \<and> j < length tr
          \<and> tr ! i = Forward v \<and> tr ! j = Allocate w b \<longrightarrow> j < i)"
proof -
  let ?as = "map (\<lambda>v. Allocate v b) (stack g)"
  let ?fs = "map Forward (stack g)"
  have tr: "forward record_call b g [] = Inr (?as @ ?fs)"
    by (simp add: forward_perform perform_record_call)
  have ord: "j < i" if "i < length (?as @ ?fs)" "j < length (?as @ ?fs)"
    "(?as @ ?fs) ! i = Forward v" "(?as @ ?fs) ! j = Allocate w b" for i j v w
  proof -
    have "\<not> i < length (stack g)" using that(3) by (auto simp: nth_append)
    moreover have "j < length (stack g)" using that(2,4) by (auto simp: nth_append split: if_splits)
    ultimately show ?thesis by simp
  qed
  show ?thesis using forward_perform [of exec b g s] tr ord by auto
qed

theorem forward_two_passes_witness:
  "forward record_call 8 \<lparr>self = 0, stack = [0, 1, 2], named = Map.empty, params = [], inputs = []\<rparr> []
     = Inr [Allocate 0 8, Allocate 1 8, Allocate 2 8, Forward 0, Forward 1, Forward 2]
   \<and> [Allocate 0 8, Allocate 1 8, Allocate 2 8, Forward 0, Forward 1, Forward 2] ! 3 = Forward 0
   \<and> [Allocate 0 8, Allocate 1 8, Allocate 2 8, Forward 0, Forward 1, Forward 2] ! 2 = Allocate 2 8
   \<and> (2::nat) < 3"
proof -
  let ?g = "\<lparr>self = 0, stack = [0, 1, 2], named = Map.empty, params = [], inputs = []\<rparr>"
  let ?tr = "[Allocate 0 8, Allocate 1 8, Allocate 2 8, Forward 0, Forward 1, Forward 2]"
  note inst = forward_two_passes [of record_call 8 ?g "[]"]
  have tr: "forward record_call 8 ?g [] = Inr ?tr"
    using inst [THEN conjunct2, THEN conjunct1] by simp
  have i: "(3::nat) < length ?tr" and j: "(2::nat) < length ?tr" by simp_all
  have fi: "?tr ! 3 = Forward 0" and aj: "?tr ! 2 = Allocate 2 8" by simp_all
  have "(2::nat) < 3"
    using inst [THEN conjunct2, THEN conjunct2] tr i j fi aj by blast
  with tr fi aj show ?thesis by blast
qed

text \<open>
  C3.  \<open>backprop(b)\<close> is \<open>forward(b)\<close> followed by \<open>backward()\<close>, and nothing else:
  for every implementation of the nodes the two have the same outcome, and the
  trace recorded by \<open>backprop\<close> is the trace of \<open>forward\<close> followed by the trace
  of \<open>backward\<close>.
\<close>

theorem backprop_forward_then_backward:
  "backprop exec b g s = forward_then_backward exec b g s
   \<and> backprop record_call b g [] =
       (case forward record_call b g [] of
          Inl e \<Rightarrow> Inl e
        | Inr t1 \<Rightarrow> (case backward record_call g [] of
                      Inl e \<Rightarrow> Inl e
                    | Inr t2 \<Rightarrow> Inr (t1 @ t2)))"
proof -
  have "backprop exec b g s = forward_then_backward exec b g s"
    by (simp add: backprop_def forward_then_backward_def and_then_def)
  moreover have "backprop record_call b g [] =
       (case forward record_call b g [] of
          Inl e \<Rightarrow> Inl e
        | Inr t1 \<Rightarrow> (case backward record_call g [] of
                      Inl e \<Rightarrow> Inl e
                    | Inr t2 \<Rightarrow> Inr (t1 @ t2)))"
    by (simp add: backprop_def and_then_def forward_perform perform_record_call
        backward_record_call [of g "_ @ _"])
  ultimately show ?thesis by blast
qed

text \<open>
  C5.  On a graph with no node, \<open>backward()\<close> runs the zeroing loop over nothing
  and then calls \<open>back()\<close> on the empty stack: the outcome is not an exception but
  undefined behaviour.
\<close>

theorem backward_empty_graph:
  "backward exec (ExpressionGraph this) s = Inl Undefined_behaviour"
  by (simp add: backward_def ExpressionGraph_def vector_back_def and_then_def)

section \<open>Properties of the registry of named nodes\<close>

lemma count_dom: "(count m k > 0) = (k \<in> dom m)"
  by (simp add: count_def dom_def split: option.splits)

lemma operator_subscript_eq:
  "operator_subscript g n = (case named g n of None \<Rightarrow> Inl (NameNotFound n) | Some e \<Rightarrow> Inr e)"
  by (simp add: operator_subscript_def UTIL_THROW_IF2_def NameNotFound_def Let_def split: option.splits)

lemma named_add_named_node:
  "named (add_named_node e name g) n =
     (case named g n of Some old \<Rightarrow> Some old | None \<Rightarrow> if name = n then Some e else None)"
  by (simp add: add_named_node_def emplace_def split: option.splits)

lemma named_add_named_nodes:
  "named (add_named_nodes regs g) n =
     (case named g n of Some old \<Rightarrow> Some old | None \<Rightarrow> first_registration regs n)"
proof (induction regs arbitrary: g)
  case Nil
  then show ?case by (simp split: option.splits)
next
  case (Cons r regs)
  obtain e name where r: "r = (e, name)" by (cases r)
  show ?case
    by (simp add: r Cons.IH named_add_named_node split: option.splits)
qed

lemma first_registration_None: "n \<notin> snd ` set regs \<Longrightarrow> first_registration regs n = None"
  by (induction regs) auto


text \<open>
  C6.  \<open>operator[](n)\<close> fails if and only if \<open>n\<close> is absent from the registry; the
  failure is then the exception of a name that was not found, and for a name
  that is present the stored handle is returned.  \<open>has_node(n)\<close> is a plain
  truth value, true exactly when \<open>n\<close> is present.
\<close>

theorem lookup_fails_iff_absent:
  "((\<exists>f. operator_subscript g n = Inl f) = (n \<notin> dom (named g)))
   \<and> (\<forall>f. operator_subscript g n = Inl f \<longrightarrow> f = NameNotFound n)
   \<and> (\<forall>e. named g n = Some e \<longrightarrow> operator_subscript g n = Inr e)
   \<and> has_node g n = (n \<in> dom (named g))"
  by (auto simp: operator_subscript_eq has_node_def count_dom split: option.splits)

theorem lookup_fails_iff_absent_witness:
  "operator_subscript (add_named_node \<lparr>graph_ptr = 0, pimpl = 5\<rparr> ''w'' (ExpressionGraph 0)) ''w''
     = Inr \<lparr>graph_ptr = 0, pimpl = 5\<rparr>
   \<and> has_node (add_named_node \<lparr>graph_ptr = 0, pimpl = 5\<rparr> ''w'' (ExpressionGraph 0)) ''w''
   \<and> operator_subscript (add_named_node \<lparr>graph_ptr = 0, pimpl = 5\<rparr> ''w'' (ExpressionGraph 0)) ''missing''
     = Inl (NameNotFound ''missing'')
   \<and> \<not> has_node (add_named_node \<lparr>graph_ptr = 0, pimpl = 5\<rparr> ''w'' (ExpressionGraph 0)) ''missing''"
proof -
  let ?e = "\<lparr>graph_ptr = 0, pimpl = 5\<rparr>"
  let ?g = "add_named_node ?e ''w'' (ExpressionGraph 0)"
  have w: "named ?g ''w'' = Some ?e"
    by (simp add: add_named_node_def emplace_def ExpressionGraph_def)
  have m: "''missing'' \<notin> dom (named ?g)"
    by (simp add: add_named_node_def emplace_def ExpressionGraph_def)
  have "operator_subscript ?g ''w'' = Inr ?e"
    using lookup_fails_iff_absent [of ?g "''w''"] w by blast
  moreover have "has_node ?g ''w''"
    using lookup_fails_iff_absent [of ?g "''w''"] w by blast
  moreover obtain f where f: "operator_subscript ?g ''missing'' = Inl f"
    using lookup_fails_iff_absent [of ?g "''missing''"] m by blast
  moreover have "f = NameNotFound ''missing''"
    using lookup_fails_iff_absent [of ?g "''missing''"] f by blast
  moreover have "\<not> has_node ?g ''missing''"
    using lookup_fails_iff_absent [of ?g "''missing''"] m by blast
  ultimately show ?thesis by simp
qed

text \<open>
  C7, as stated, at a concrete input.  In a graph where \<open>w\<close> is already bound to
  a handle of node 1, \<open>add_named_node(h, w)\<close> with a handle \<open>h\<close> of node 2 followed
  by \<open>operator[](w)\<close> returns the handle of node 1, not a handle of the node
  of \<open>h\<close>.
\<close>

theorem round_trip_rebound_name:
  "operator_subscript
     (add_named_node \<lparr>graph_ptr = 0, pimpl = 2\<rparr> ''w''
        (add_named_node \<lparr>graph_ptr = 0, pimpl = 1\<rparr> ''w'' (ExpressionGraph 0))) ''w''
     = Inr \<lparr>graph_ptr = 0, pimpl = 1\<rparr>
   \<and> pimpl \<lparr>graph_ptr = 0, pimpl = 1\<rparr> \<noteq> pimpl \<lparr>graph_ptr = 0, pimpl = 2\<rparr>"
  by (simp add: operator_subscript_eq named_add_named_node ExpressionGraph_def)

text \<open>
  C7, amended.  For every graph in which \<open>n\<close> is not bound yet,
  \<open>add_named_node(h, n)\<close> followed by \<open>operator[](n)\<close> returns \<open>h\<close> itself, hence a
  handle of the same node.  For a name that was never registered in a graph
  built from the empty one, \<open>has_node\<close> returns false and \<open>operator[]\<close> fails with
  the exception of a name that was not found.
\<close>

theorem round_trip_fresh_name:
  "(named g n = None \<longrightarrow>
      operator_subscript (add_named_node h n g) n = Inr h)
   \<and> (n \<notin> snd ` set regs \<longrightarrow>
        \<not> has_node (add_named_nodes regs (ExpressionGraph this)) n
      \<and> operator_subscript (add_named_nodes regs (ExpressionGraph this)) n = Inl (NameNotFound n))"
  by (simp add: operator_subscript_eq named_add_named_node named_add_named_nodes has_node_def
      count_def first_registration_None ExpressionGraph_def)

theorem round_trip_fresh_name_witness:
  "named (ExpressionGraph 0) ''w'' = None
   \<and> operator_subscript (add_named_node \<lparr>graph_ptr = 0, pimpl = 5\<rparr> ''w'' (ExpressionGraph 0)) ''w''
       = Inr \<lparr>graph_ptr = 0, pimpl = 5\<rparr>
   \<and> ''missing'' \<notin> snd ` set [(\<lparr>graph_ptr = 0, pimpl = 5\<rparr>, ''w'')]
   \<and> \<not> has_node (add_named_nodes [(\<lparr>graph_ptr = 0, pimpl = 5\<rparr>, ''w'')] (ExpressionGraph 0)) ''missing''
   \<and> operator_subscript (add_named_nodes [(\<lparr>graph_ptr = 0, pimpl = 5\<rparr>, ''w'')] (ExpressionGraph 0)) ''missing''
       = Inl (NameNotFound ''missing'')"
proof -
  let ?h = "\<lparr>graph_ptr = 0, pimpl = 5\<rparr>"
  note inst = round_trip_fresh_name [of "ExpressionGraph 0" "''w''" ?h]
  note inst' = round_trip_fresh_name [of _ "''missing''" _ "[(?h, ''w'')]" 0]
  have fresh: "named (ExpressionGraph 0) ''w'' = None"
    by (simp add: ExpressionGraph_def)
  have never: "''missing'' \<notin> snd ` set [(?h, ''w'')]"
    by simp
  from inst fresh have "operator_subscript (add_named_node ?h ''w'' (ExpressionGraph 0)) ''w'' = Inr ?h"
    by blast
  moreover from inst' never
  have "\<not> has_node (add_named_nodes [(?h, ''w'')] (ExpressionGraph 0)) ''missing''
        \<and> operator_subscript (add_named_nodes [(?h, ''w'')] (ExpressionGraph 0)) ''missing''
            = Inl (NameNotFound ''missing'')"
    by blast
  ultimately show ?thesis using fresh never by blast
qed

text \<open>
  C4, as stated, at a concrete input.  After \<open>w\<close> was registered for a handle of
  node 1, registering \<open>w\<close> again for a handle of node 2 leaves \<open>w\<close> bound to the
  first handle only: the second handle is bound under \<open>w\<close> neither instead of
  the first nor beside it, and it occurs nowhere in the registry.
\<close>

theorem add_named_node_no_alias:
  "named (add_named_node \<lparr>graph_ptr = 0, pimpl = 2\<rparr> ''w''
            (add_named_node \<lparr>graph_ptr = 0, pimpl = 1\<rparr> ''w'' (ExpressionGraph 0))) ''w''
     = Some \<lparr>graph_ptr = 0, pimpl = 1\<rparr>
   \<and> named (add_named_node \<lparr>graph_ptr = 0, pimpl = 2\<rparr> ''w''
            (add_named_node \<lparr>graph_ptr = 0, pimpl = 1\<rparr> ''w'' (ExpressionGraph 0))) ''w''
     \<noteq> Some \<lparr>graph_ptr = 0, pimpl = 2\<rparr>
   \<and> \<lparr>graph_ptr = 0, pimpl = 2\<rparr> \<notin>
       ran (named (add_named_node \<lparr>graph_ptr = 0, pimpl = 2\<rparr> ''w''
            (add_named_node \<lparr>graph_ptr = 0, pimpl = 1\<rparr> ''w'' (ExpressionGraph 0))))"
  by (simp add: add_named_node_def emplace_def ExpressionGraph_def)

text \<open>
  C4, amended.  When the registry already binds \<open>n\<close>, a later
  \<open>add_named_node(e, n)\<close> changes nothing: the earlier binding stays, and no
  binding is added.
\<close>

theorem add_named_node_bound_name:
  "named g n = Some e0 \<Longrightarrow> add_named_node e n g = g"
  by (simp add: add_named_node_def emplace_def)

theorem add_named_node_bound_name_witness:
  "named (add_named_node \<lparr>graph_ptr = 0, pimpl = 1\<rparr> ''w'' (ExpressionGraph 0)) ''w''
     = Some \<lparr>graph_ptr = 0, pimpl = 1\<rparr>
   \<and> add_named_node \<lparr>graph_ptr = 0, pimpl = 2\<rparr> ''w''
        (add_named_node \<lparr>graph_ptr = 0, pimpl = 1\<rparr> ''w'' (ExpressionGraph 0))
     = add_named_node \<lparr>graph_ptr = 0, pimpl = 1\<rparr> ''w'' (ExpressionGraph 0)"
proof -
  have bound: "named (add_named_node \<lparr>graph_ptr = 0, pimpl = 1\<rparr> ''w'' (ExpressionGraph 0)) ''w''
     = Some \<lparr>graph_ptr = 0, pimpl = 1\<rparr>"
    by (simp add: add_named_node_def emplace_def ExpressionGraph_def)
  from add_named_node_bound_name [OF bound, of "\<lparr>graph_ptr = 0, pimpl = 2\<rparr>"] bound
  show ?thesis by blast
qed








section \<open>Properties of the construction of nodes\<close>

text \<open>
  C8.  \<open>input\<close> appends the handle it returns to the input list and leaves the
  parameter list alone; \<open>param\<close> appends the handle it returns to the parameter
  list and leaves the input list alone; \<open>constant\<close>, \<open>ones\<close> and \<open>zeroes\<close> change
  neither list.  None of the five changes a node that exists already, so the
  dependency list of every existing node is what it was.
\<close>

theorem construction_frame:
  "(input args h g = (e, h', g') \<longrightarrow>
      inputs g' = inputs g @ [e] \<and> params g' = params g)
   \<and> (param args h g = (e, h', g') \<longrightarrow>
      params g' = params g @ [e] \<and> inputs g' = inputs g)
   \<and> (constant args h g = (e, h', g') \<or> ones args h g = (e, h', g') \<or> zeroes args h g = (e, h', g') \<longrightarrow>
      inputs g' = inputs g \<and> params g' = params g)
   \<and> (input args h g = (e, h', g') \<or> param args h g = (e, h', g') \<or> constant args h g = (e, h', g')
        \<or> ones args h g = (e, h', g') \<or> zeroes args h g = (e, h', g') \<longrightarrow>
      take (length h) h' = h \<and> (\<forall>p < length h. deps (h' ! p) = deps (h ! p)))"
  by (auto simp: input_def param_def constant_def ones_def zeroes_def Expr_def new_node_def nth_append)

theorem construction_frame_witness:
  "inputs (snd (snd (input [Arg ()] example_heap example_graph))) = [\<lparr>graph_ptr = 0, pimpl = 2\<rparr>]
   \<and> params (snd (snd (input [Arg ()] example_heap example_graph))) = [\<lparr>graph_ptr = 0, pimpl = 0\<rparr>]
   \<and> deps (fst (snd (input [Arg ()] example_heap example_graph)) ! 1) = [0]
   \<and> params (snd (snd (param [Arg ()] example_heap example_graph)))
       = [\<lparr>graph_ptr = 0, pimpl = 0\<rparr>, \<lparr>graph_ptr = 0, pimpl = 2\<rparr>]
   \<and> inputs (snd (snd (param [Arg ()] example_heap example_graph))) = []
   \<and> inputs (snd (snd (constant [Arg ()] example_heap example_graph))) = []
   \<and> params (snd (snd (constant [Arg ()] example_heap example_graph))) = [\<lparr>graph_ptr = 0, pimpl = 0\<rparr>]
   \<and> deps (fst (snd (constant [Arg ()] example_heap example_graph)) ! 1) = [0]"
proof -
  let ?i = "input [Arg ()] example_heap example_graph"
  let ?p = "param [Arg ()] example_heap example_graph"
  let ?c = "constant [Arg ()] example_heap example_graph"
  have one: "(1::nat) < length example_heap"
    by (simp add: example_heap_def)
  have i: "?i = (fst ?i, fst (snd ?i), snd (snd ?i))"
    and p: "?p = (fst ?p, fst (snd ?p), snd (snd ?p))"
    and c: "?c = (fst ?c, fst (snd ?c), snd (snd ?c))"
    by simp_all
  have ei: "fst ?i = \<lparr>graph_ptr = 0, pimpl = 2\<rparr>" and ep: "fst ?p = \<lparr>graph_ptr = 0, pimpl = 2\<rparr>"
    by (simp_all add: input_def param_def new_node_def Expr_def example_heap_def example_graph_def)
  have "inputs (snd (snd ?i)) = inputs example_graph @ [fst ?i]
        \<and> params (snd (snd ?i)) = params example_graph
        \<and> deps (fst (snd ?i) ! 1) = deps (example_heap ! 1)"
    using construction_frame [of "[Arg ()]" example_heap example_graph
        "fst ?i" "fst (snd ?i)" "snd (snd ?i)"] i one by blast
  moreover have "params (snd (snd ?p)) = params example_graph @ [fst ?p]
        \<and> inputs (snd (snd ?p)) = inputs example_graph"
    using construction_frame [of "[Arg ()]" example_heap example_graph
        "fst ?p" "fst (snd ?p)" "snd (snd ?p)"] p by blast
  moreover have "inputs (snd (snd ?c)) = inputs example_graph
        \<and> params (snd (snd ?c)) = params example_graph
        \<and> deps (fst (snd ?c) ! 1) = deps (example_heap ! 1)"
    using construction_frame [of "[Arg ()]" example_heap example_graph
        "fst ?c" "fst (snd ?c)" "snd (snd ?c)"] c one by blast
  moreover have "inputs example_graph = []" "params example_graph = [\<lparr>graph_ptr = 0, pimpl = 0\<rparr>]"
    "deps (example_heap ! 1) = [0]"
    by (simp_all add: example_heap_def example_graph_def)
  ultimately show ?thesis using ei ep by simp
qed

text \<open>
  C9.  \<open>ones\<close> is \<open>constant\<close> with \<open>keywords::value=1\<close> put before the arguments of
  the caller, and \<open>zeroes\<close> is \<open>constant\<close> with \<open>keywords::value=0\<close> put before them:
  each constructs a new constant node from that argument list, appends it to
  the stack and returns a handle of this graph to it.  What the constructor of
  the node makes of a further value keyword among the arguments of the caller
  is decided in \<open>node_operators.h\<close>, outside the header.
\<close>

theorem ones_zeroes_constant:
  "ones args h g = constant (Keyword_value 1 # args) h g
   \<and> zeroes args h g = constant (Keyword_value 0 # args) h g
   \<and> (ones args h g = (e, h', g') \<longrightarrow>
        pimpl e = length h \<and> graph_ptr e = self g \<and> stack g' = stack g @ [pimpl e]
      \<and> length h' = Suc (length h)
      \<and> h' ! pimpl e = \<lparr>variant = ConstantNode, ctor_args = Keyword_value 1 # args, deps = []\<rparr>)
   \<and> (zeroes args h g = (e, h', g') \<longrightarrow>
        pimpl e = length h \<and> graph_ptr e = self g \<and> stack g' = stack g @ [pimpl e]
      \<and> length h' = Suc (length h)
      \<and> h' ! pimpl e = \<lparr>variant = ConstantNode, ctor_args = Keyword_value 0 # args, deps = []\<rparr>)"
  by (auto simp: constant_def ones_def zeroes_def Expr_def new_node_def)

theorem ones_zeroes_constant_witness:
  "fst (ones [Arg ()] example_heap example_graph) = \<lparr>graph_ptr = 0, pimpl = 2\<rparr>
   \<and> fst (snd (ones [Arg ()] example_heap example_graph)) ! 2
       = \<lparr>variant = ConstantNode, ctor_args = [Keyword_value 1, Arg ()], deps = []\<rparr>
   \<and> stack (snd (snd (ones [Arg ()] example_heap example_graph))) = [0, 1, 2]
   \<and> fst (zeroes [Arg ()] example_heap example_graph) = \<lparr>graph_ptr = 0, pimpl = 2\<rparr>
   \<and> fst (snd (zeroes [Arg ()] example_heap example_graph)) ! 2
       = \<lparr>variant = ConstantNode, ctor_args = [Keyword_value 0, Arg ()], deps = []\<rparr>
   \<and> stack (snd (snd (zeroes [Arg ()] example_heap example_graph))) = [0, 1, 2]"
proof -
  let ?o = "ones [Arg ()] example_heap example_graph"
  let ?z = "zeroes [Arg ()] example_heap example_graph"
  have o: "?o = (fst ?o, fst (snd ?o), snd (snd ?o))"
    and z: "?z = (fst ?z, fst (snd ?z), snd (snd ?z))"
    by simp_all
  have len: "length example_heap = 2" "stack example_graph = [0, 1]" "self example_graph = 0"
    by (simp_all add: example_heap_def example_graph_def)
  note io = ones_zeroes_constant [of "[Arg ()]" example_heap example_graph
        "fst ?o" "fst (snd ?o)" "snd (snd ?o)", THEN conjunct2, THEN conjunct2, THEN conjunct1,
        rule_format, OF o]
  note iz = ones_zeroes_constant [of "[Arg ()]" example_heap example_graph
        "fst ?z" "fst (snd ?z)" "snd (snd ?z)", THEN conjunct2, THEN conjunct2, THEN conjunct2,
        rule_format, OF z]
  have po: "pimpl (fst ?o) = 2" and go: "graph_ptr (fst ?o) = 0"
    using io len by simp_all
  have pz: "pimpl (fst ?z) = 2" and gz: "graph_ptr (fst ?z) = 0"
    using iz len by simp_all
  have "fst ?o = \<lparr>graph_ptr = 0, pimpl = 2\<rparr>" "fst ?z = \<lparr>graph_ptr = 0, pimpl = 2\<rparr>"
    using po go pz gz by (simp_all add: expr.equality)
  moreover have "fst (snd ?o) ! 2
       = \<lparr>variant = ConstantNode, ctor_args = [Keyword_value 1, Arg ()], deps = []\<rparr>"
    using io po by simp
  moreover have "fst (snd ?z) ! 2
       = \<lparr>variant = ConstantNode, ctor_args = [Keyword_value 0, Arg ()], deps = []\<rparr>"
    using iz pz by simp
  moreover have "stack (snd (snd ?o)) = [0, 1, 2]" "stack (snd (snd ?z)) = [0, 1, 2]"
    using io iz po pz len by simp_all
  ultimately show ?thesis by blast
qed

end
